theory Spec2Isabelle
  imports Main
begin

section \<open>Python values, errors and the string primitives the scripts call\<close>

text \<open>
  The repository holds two command-line scripts, \<^verbatim>\<open>scripts/transform_jinja2.py\<close> and its
  older copy \<^verbatim>\<open>client/scripts/transform_jinja2.py\<close>. Both read a Jinja2 template from the
  standard input, load a JSON document, render the template and print the result followed by
  a comment trailer. The first one also defines two template filters and a helper that is
  meant to flatten a multi-line string.

  Python exceptions are values of type \<open>error\<close>; a computation that may raise returns
  \<open>error + 'a\<close> with \<open>Inl\<close> for the exception.
\<close>

datatype error =
  TypeError | KeyError | IndexError | ValueError | OSError | JSONDecodeError | TemplateError

definition and_then :: "error + 'a \<Rightarrow> ('a \<Rightarrow> error + 'b) \<Rightarrow> error + 'b" where
  "and_then r f = (case r of Inl e \<Rightarrow> Inl e | Inr x \<Rightarrow> f x)"

text \<open>
  A Python \<^verbatim>\<open>float\<close> is observed by these scripts in exactly two ways: it is compared with
  zero (\<^verbatim>\<open>time > 0\<close>) and it is rendered by \<^verbatim>\<open>str\<close>. The model keeps these two
  observations and nothing else, so that no rounding behaviour has to be assumed.
\<close>

record pyfloat =
  exceeds_zero :: bool
  rendering :: string

datatype pynum = NInt int | NFloat pyfloat

text \<open>
  The values a JSON document is made of (what \<^verbatim>\<open>json.load\<close> returns). A \<^verbatim>\<open>dict\<close> is the
  list of its items in insertion order, with distinct keys. A \<^verbatim>\<open>str\<close> is a list of
  characters whose code points are below 256.
\<close>

datatype pyvalue =
  PNone
| PBool bool
| PNum pynum
| PStr string
| PList "pyvalue list"
| PDict "(string \<times> pyvalue) list"

subsection \<open>\<^verbatim>\<open>str.join\<close>\<close>

fun str_join :: "string \<Rightarrow> string list \<Rightarrow> string" where
  "str_join sep [] = []"
| "str_join sep [x] = x"
| "str_join sep (x # y # ys) = x @ sep @ str_join sep (y # ys)"



subsection \<open>\<^verbatim>\<open>str.splitlines\<close>\<close>

definition LF :: char where
  "LF = CHR 0x0A"

definition CR :: char where
  "CR = CHR 0x0D"

text \<open>
  The line boundaries of \<^verbatim>\<open>str.splitlines\<close> among the code points below 256: LF, VT, FF,
  CR, FS, GS, RS and NEL. (U+2028 and U+2029 are boundaries too; they lie outside this
  character type.)
\<close>

definition is_linebreak :: "char \<Rightarrow> bool" where
  "is_linebreak c \<longleftrightarrow>
     c = CHR 0x0A \<or> c = CHR 0x0B \<or> c = CHR 0x0C \<or> c = CHR 0x0D \<or>
     c = CHR 0x1C \<or> c = CHR 0x1D \<or> c = CHR 0x1E \<or> c = CHR 0x85"

text \<open>
  The scanning loop of \<^verbatim>\<open>splitlines\<close>: \<open>line\<close> is the text since the last boundary. CR
  followed by LF is one boundary. A boundary is kept at the end of its line when
  \<open>keepends\<close> holds. Nothing is appended for an empty remainder after the last boundary.
\<close>

fun splitlines_from :: "string \<Rightarrow> bool \<Rightarrow> string \<Rightarrow> string list" where
  "splitlines_from line keepends [] = (if line = [] then [] else [line])"
| "splitlines_from line keepends [c] =
     (if is_linebreak c then [line @ (if keepends then [c] else [])] else [line @ [c]])"
| "splitlines_from line keepends (c # d # cs) =
     (if c = CR \<and> d = LF then
        (line @ (if keepends then [c, d] else [])) # splitlines_from [] keepends cs
      else if is_linebreak c then
        (line @ (if keepends then [c] else [])) # splitlines_from [] keepends (d # cs)
      else splitlines_from (line @ [c]) keepends (d # cs))"

definition splitlines :: "string \<Rightarrow> bool \<Rightarrow> string list" where
  "splitlines s keepends = splitlines_from [] keepends s"

text \<open>
  How a built-in function converts the object passed for a boolean parameter such as
  \<^verbatim>\<open>keepends\<close>. Python up to 3.11 accepts only \<^verbatim>\<open>bool\<close> and \<^verbatim>\<open>int\<close> there, and raises
  \<^verbatim>\<open>TypeError\<close> for a \<^verbatim>\<open>str\<close>; from Python 3.12 on every object is accepted and its truth
  value is taken, which for a \<^verbatim>\<open>str\<close> is "not empty". The flag \<open>any_object\<close> says which
  of the two the interpreter does.
\<close>

definition bool_param :: "bool \<Rightarrow> string \<Rightarrow> error + bool" where
  "bool_param any_object s = (if any_object then Inr (s \<noteq> []) else Inl TypeError)"

subsection \<open>\<^verbatim>\<open>str\<close> of a number\<close>






subsection \<open>\<^verbatim>\<open>str.format\<close> with positional arguments\<close>

text \<open>
  The format strings of the scripts use the replacement fields \<^verbatim>\<open>{}\<close> (numbered
  automatically) and \<^verbatim>\<open>{0}\<close> (numbered by hand). The model covers these two forms, the
  escapes \<^verbatim>\<open>{{\<close> and \<^verbatim>\<open>}}\<close>, and the errors Python raises for them: \<^verbatim>\<open>ValueError\<close> for
  a single brace and for mixing the two numberings, \<^verbatim>\<open>IndexError\<close> for a missing
  argument, \<^verbatim>\<open>KeyError\<close> for a field named by a keyword (none is ever passed). Fields with
  a conversion or a format specification do not occur in the scripts and are outside the
  model. The arguments are passed already rendered by \<^verbatim>\<open>str\<close>.
\<close>

datatype numbering = Unset | Automatic nat | Manual

definition prepend :: "string \<Rightarrow> error + string \<Rightarrow> error + string" where
  "prepend s r = and_then r (\<lambda>t. Inr (s @ t))"

definition is_digit :: "char \<Rightarrow> bool" where
  "is_digit c \<longleftrightarrow> c \<in> set ''0123456789''"

definition digit_value :: "char \<Rightarrow> nat" where
  "digit_value c = length (takeWhile (\<lambda>d. d \<noteq> c) ''0123456789'')"

definition nat_of_digits :: "string \<Rightarrow> nat" where
  "nat_of_digits ds = foldl (\<lambda>n c. 10 * n + digit_value c) 0 ds"

fun format_text :: "numbering \<Rightarrow> string list \<Rightarrow> string \<Rightarrow> error + string"
  and format_field :: "numbering \<Rightarrow> string list \<Rightarrow> string \<Rightarrow> string \<Rightarrow> error + string"
where
  "format_text m args [] = Inr []"
| "format_text m args [c] =
     (if c = CHR ''{'' \<or> c = CHR ''}'' then Inl ValueError else Inr [c])"
| "format_text m args (c # d # cs) =
     (if c = CHR ''{'' then
        (if d = CHR ''{'' then prepend ''{'' (format_text m args cs)
         else format_field m args [] (d # cs))
      else if c = CHR ''}'' then
        (if d = CHR ''}'' then prepend ''}'' (format_text m args cs) else Inl ValueError)
      else prepend [c] (format_text m args (d # cs)))"
| "format_field m args name [] = Inl ValueError"
| "format_field m args name (c # cs) =
     (if c = CHR ''}'' then
        (if name = [] then
           (case m of
              Manual \<Rightarrow> Inl ValueError
            | Unset \<Rightarrow>
                (if 0 < length args then prepend (args ! 0) (format_text (Automatic 1) args cs)
                 else Inl IndexError)
            | Automatic i \<Rightarrow>
                (if i < length args
                 then prepend (args ! i) (format_text (Automatic (Suc i)) args cs)
                 else Inl IndexError))
         else if list_all is_digit name then
           (case m of
              Automatic i \<Rightarrow> Inl ValueError
            | _ \<Rightarrow>
                (if nat_of_digits name < length args
                 then prepend (args ! nat_of_digits name) (format_text Manual args cs)
                 else Inl IndexError))
         else Inl KeyError)
      else format_field m args (name @ [c]) cs)"

definition py_format :: "string \<Rightarrow> string list \<Rightarrow> error + string" where
  "py_format fmt args = format_text Unset args fmt"

subsection \<open>\<^verbatim>\<open>hasattr\<close> and subscription on JSON values\<close>

datatype pytype = T_None | T_bool | T_int | T_float | T_str | T_list | T_dict

fun type_of :: "pyvalue \<Rightarrow> pytype" where
  "type_of PNone = T_None"
| "type_of (PBool b) = T_bool"
| "type_of (PNum (NInt i)) = T_int"
| "type_of (PNum (NFloat f)) = T_float"
| "type_of (PStr s) = T_str"
| "type_of (PList vs) = T_list"
| "type_of (PDict items) = T_dict"

text \<open>
  The values above carry no attributes of their own: \<^verbatim>\<open>hasattr(value, name)\<close> holds exactly
  when \<open>name\<close> is an attribute of the value's type. The tables list the attribute names
  of the built-in types as \<^verbatim>\<open>dir\<close> reports them in CPython 3.11: those of \<^verbatim>\<open>object\<close>, which
  every type has, and what each type adds. The keys of a \<^verbatim>\<open>dict\<close> are not attributes.
\<close>

definition object_attrs :: "string list" where
  "object_attrs =
     [''__class__'', ''__delattr__'', ''__dir__'', ''__doc__'', ''__eq__'', ''__format__'',
      ''__ge__'', ''__getattribute__'', ''__getstate__'', ''__gt__'', ''__hash__'', ''__init__'',
      ''__init_subclass__'', ''__le__'', ''__lt__'', ''__ne__'', ''__new__'', ''__reduce__'',
      ''__reduce_ex__'', ''__repr__'', ''__setattr__'', ''__sizeof__'', ''__str__'',
      ''__subclasshook__'']"

definition dict_attrs :: "string list" where
  "dict_attrs =
     [''__class_getitem__'', ''__contains__'', ''__delitem__'', ''__getitem__'', ''__ior__'',
      ''__iter__'', ''__len__'', ''__or__'', ''__reversed__'', ''__ror__'', ''__setitem__'',
      ''clear'', ''copy'', ''fromkeys'', ''get'', ''items'', ''keys'', ''pop'', ''popitem'',
      ''setdefault'', ''update'', ''values'']"

definition list_attrs :: "string list" where
  "list_attrs =
     [''__add__'', ''__class_getitem__'', ''__contains__'', ''__delitem__'', ''__getitem__'',
      ''__iadd__'', ''__imul__'', ''__iter__'', ''__len__'', ''__mul__'', ''__reversed__'',
      ''__rmul__'', ''__setitem__'', ''append'', ''clear'', ''copy'', ''count'', ''extend'',
      ''index'', ''insert'', ''pop'', ''remove'', ''reverse'', ''sort'']"

definition str_attrs :: "string list" where
  "str_attrs =
     [''__add__'', ''__contains__'', ''__getitem__'', ''__getnewargs__'', ''__iter__'',
      ''__len__'', ''__mod__'', ''__mul__'', ''__rmod__'', ''__rmul__'', ''capitalize'',
      ''casefold'', ''center'', ''count'', ''encode'', ''endswith'', ''expandtabs'', ''find'',
      ''format'', ''format_map'', ''index'', ''isalnum'', ''isalpha'', ''isascii'', ''isdecimal'',
      ''isdigit'', ''isidentifier'', ''islower'', ''isnumeric'', ''isprintable'', ''isspace'',
      ''istitle'', ''isupper'', ''join'', ''ljust'', ''lower'', ''lstrip'', ''maketrans'',
      ''partition'', ''removeprefix'', ''removesuffix'', ''replace'', ''rfind'', ''rindex'',
      ''rjust'', ''rpartition'', ''rsplit'', ''rstrip'', ''split'', ''splitlines'',
      ''startswith'', ''strip'', ''swapcase'', ''title'', ''translate'', ''upper'', ''zfill'']"

definition int_attrs :: "string list" where
  "int_attrs =
     [''__abs__'', ''__add__'', ''__and__'', ''__bool__'', ''__ceil__'', ''__divmod__'',
      ''__float__'', ''__floor__'', ''__floordiv__'', ''__getnewargs__'', ''__index__'',
      ''__int__'', ''__invert__'', ''__lshift__'', ''__mod__'', ''__mul__'', ''__neg__'',
      ''__or__'', ''__pos__'', ''__pow__'', ''__radd__'', ''__rand__'', ''__rdivmod__'',
      ''__rfloordiv__'', ''__rlshift__'', ''__rmod__'', ''__rmul__'', ''__ror__'', ''__round__'',
      ''__rpow__'', ''__rrshift__'', ''__rshift__'', ''__rsub__'', ''__rtruediv__'', ''__rxor__'',
      ''__sub__'', ''__truediv__'', ''__trunc__'', ''__xor__'', ''as_integer_ratio'',
      ''bit_count'', ''bit_length'', ''conjugate'', ''denominator'', ''from_bytes'', ''imag'',
      ''numerator'', ''real'', ''to_bytes'']"

definition float_attrs :: "string list" where
  "float_attrs =
     [''__abs__'', ''__add__'', ''__bool__'', ''__ceil__'', ''__divmod__'', ''__float__'',
      ''__floor__'', ''__floordiv__'', ''__getformat__'', ''__getnewargs__'', ''__int__'',
      ''__mod__'', ''__mul__'', ''__neg__'', ''__pos__'', ''__pow__'', ''__radd__'',
      ''__rdivmod__'', ''__rfloordiv__'', ''__rmod__'', ''__rmul__'', ''__round__'', ''__rpow__'',
      ''__rsub__'', ''__rtruediv__'', ''__sub__'', ''__truediv__'', ''__trunc__'',
      ''as_integer_ratio'', ''conjugate'', ''fromhex'', ''hex'', ''imag'', ''is_integer'',
      ''real'']"

fun type_attrs :: "pytype \<Rightarrow> string list" where
  "type_attrs T_None = [''__bool__'']"
| "type_attrs T_bool = int_attrs"
| "type_attrs T_int = int_attrs"
| "type_attrs T_float = float_attrs"
| "type_attrs T_str = str_attrs"
| "type_attrs T_list = list_attrs"
| "type_attrs T_dict = dict_attrs"

definition py_hasattr :: "pyvalue \<Rightarrow> string \<Rightarrow> bool" where
  "py_hasattr v name \<longleftrightarrow> name \<in> set (object_attrs @ type_attrs (type_of v))"

text \<open>
  \<^verbatim>\<open>value[key]\<close> with a \<^verbatim>\<open>str\<close> key: a \<^verbatim>\<open>dict\<close> looks the key up and raises \<^verbatim>\<open>KeyError\<close>
  when it is absent; a \<^verbatim>\<open>str\<close> or \<^verbatim>\<open>list\<close> wants an integer index and the other types
  have no subscription, which is \<^verbatim>\<open>TypeError\<close> in both cases.
\<close>

fun py_getitem :: "pyvalue \<Rightarrow> string \<Rightarrow> error + pyvalue" where
  "py_getitem (PDict items) key =
     (case map_of items key of None \<Rightarrow> Inl KeyError | Some v \<Rightarrow> Inr v)"
| "py_getitem v key = Inl TypeError"

section \<open>The filters and the helper of \<^verbatim>\<open>scripts/transform_jinja2.py\<close>\<close>


text \<open>
  \<^verbatim>\<open>
  def map_filter(value: any, attribute_name: str, default=None) -> any:
      if hasattr(value, attribute_name):
          return value[attribute_name]
      else:
          return default
  \<close>
  The third argument is \<open>None\<close> when the caller omits it; the parameter then takes its
  default, Python's \<^verbatim>\<open>None\<close>.
\<close>

definition map_filter :: "pyvalue \<Rightarrow> string \<Rightarrow> pyvalue option \<Rightarrow> error + pyvalue" where
  "map_filter value attribute_name default' =
     (if py_hasattr value attribute_name then py_getitem value attribute_name
      else Inr (case default' of None \<Rightarrow> PNone | Some d \<Rightarrow> d))"

text \<open>
  \<^verbatim>\<open>
  def sanitize_line_ends(value: str) -> str:
      return ", ".join(value.splitlines(value))
  \<close>
  The string itself is passed for \<^verbatim>\<open>keepends\<close>, the only parameter of \<^verbatim>\<open>splitlines\<close>.
\<close>

definition sanitize_line_ends :: "bool \<Rightarrow> string \<Rightarrow> error + string" where
  "sanitize_line_ends any_object value =
     and_then (bool_param any_object value) (\<lambda>keepends.
       Inr (str_join '', '' (splitlines value keepends)))"

section \<open>The two scripts\<close>

subsection \<open>The host and what a run does\<close>

text \<open>
  Everything a run depends on is a field of the host: whether \<^verbatim>\<open>from jinja2 import Template\<close>
  succeeds, how built-in functions convert a boolean argument, the text on the standard
  input (decoded, with line ends translated to line feeds), \<^verbatim>\<open>sys.argv[0]\<close> and \<^verbatim>\<open>sys.argv[1:]\<close>, the text of each file (or the exception that
  opening and reading it raises), \<^verbatim>\<open>sys.version\<close> and the text of \<^verbatim>\<open>datetime.datetime.now()\<close>
  when the last line is printed. The JSON parser and the template engine are libraries
  outside the repository; they are fields as well: \<open>json_load\<close> parses a text,
  \<open>new_template\<close> is the constructor \<^verbatim>\<open>Template(text)\<close> and \<open>render_template\<close> is
  \<^verbatim>\<open>template.render(data=...)\<close>, which sees the filters the script has installed in the
  template's environment by then. \<open>'t\<close> is the type of template objects.
\<close>

datatype pyfunction = Tif_filter | Map_filter

record 't host =
  jinja2_found :: bool
  any_object_as_bool :: bool
  stdin_text :: string
  argv0 :: string
  argv_rest :: "string list"
  file_text :: "string \<Rightarrow> error + string"
  json_load :: "string \<Rightarrow> error + pyvalue"
  new_template :: "string \<Rightarrow> error + 't"
  render_template :: "'t \<Rightarrow> (string \<rightharpoonup> pyfunction) \<Rightarrow> pyvalue \<Rightarrow> error + string"
  sys_version :: string
  now_text :: string

text \<open>
  A run is the list of its effects in the order they happen. \<open>Exit n\<close> is the call
  \<^verbatim>\<open>exit(n)\<close> (the status the operating system reports for \<open>-1\<close> is 255 on POSIX);
  \<open>Uncaught e\<close> is an exception nobody handles, for which the interpreter prints a
  traceback on the standard error and ends the process with status 1. Either one ends the
  run.
\<close>

datatype event =
  Read_stdin string
| Read_file string
| Write_stdout string
| Write_stderr string
| Exit int
| Uncaught error

definition or_raise :: "error + 'a \<Rightarrow> ('a \<Rightarrow> event list) \<Rightarrow> event list" where
  "or_raise r continue = (case r of Inl e \<Rightarrow> [Uncaught e] | Inr x \<Rightarrow> continue x)"

fun stdout_of :: "event list \<Rightarrow> string" where
  "stdout_of [] = []"
| "stdout_of (Write_stdout s # es) = s @ stdout_of es"
| "stdout_of (e # es) = stdout_of es"


fun exit_status :: "event list \<Rightarrow> int" where
  "exit_status [] = 0"
| "exit_status (Exit n # es) = n"
| "exit_status (Uncaught e # es) = 1"
| "exit_status (e # es) = exit_status es"

fun is_input :: "event \<Rightarrow> bool" where
  "is_input (Read_stdin s) = True"
| "is_input (Read_file path) = True"
| "is_input e = False"

subsection \<open>Library calls of the scripts\<close>

text \<open>\<^verbatim>\<open>sys.stderr.write(args)\<close>\<close>

definition eprint :: "string \<Rightarrow> event list" where
  "eprint args = [Write_stderr args]"

text \<open>\<^verbatim>\<open>print(s)\<close> writes \<open>s\<close> and a line feed.\<close>

definition print :: "string \<Rightarrow> event" where
  "print s = Write_stdout (s @ [LF])"

text \<open>\<^verbatim>\<open>os.path.basename\<close> on POSIX: what follows the last slash.\<close>

definition basename :: "string \<Rightarrow> string" where
  "basename p = rev (takeWhile (\<lambda>c. c \<noteq> CHR ''/'') (rev p))"

text \<open>
  \<^verbatim>\<open>sys.stdin.readlines()\<close>: the lines up to the end of the input, each with its line feed.
\<close>

fun readlines_from :: "string \<Rightarrow> string \<Rightarrow> string list" where
  "readlines_from line [] = (if line = [] then [] else [line])"
| "readlines_from line (c # cs) =
     (if c = LF then (line @ [c]) # readlines_from [] cs else readlines_from (line @ [c]) cs)"

definition readlines :: "string \<Rightarrow> string list" where
  "readlines s = readlines_from [] s"

subsection \<open>\<^verbatim>\<open>scripts/transform_jinja2.py\<close>\<close>

text \<open>
  \<^verbatim>\<open>
  def main(args):
      if len(args) < 1:
          eprint("Usage: {0} <data.json>".format(os.path.basename(sys.argv[0])))
          exit(-1)
      data_path = args[0]
      with io.open(data_path, mode='r', encoding="utf-8") as fp:
          input_data = json.load(fp)
      template = Template(template_text)
      template.environment.filters['tif'] = tif_filter
      template.environment.filters['mapattr'] = map_filter
      rendered = template.render(data=input_data)
      print(rendered)
      print("; This PDDL problem file was generated using Jinja2 template")
      print(";    Python: " + sanitize_line_ends(sys.version))
      print(";    Data: " + data_path)
      print(";    Time: " + str(datetime.datetime.now()))
  \<close>
  \<open>template_text\<close> is the global the module has set before it calls \<open>main\<close>.
\<close>

definition main :: "'t host \<Rightarrow> string \<Rightarrow> string list \<Rightarrow> event list" where
  "main h template_text args =
     (if length args < 1 then
        or_raise (py_format ''Usage: {0} <data.json>'' [basename (argv0 h)]) (\<lambda>usage.
          eprint usage @ [Exit (- 1)])
      else
        let data_path = args ! 0 in
        Read_file data_path #
        or_raise (file_text h data_path) (\<lambda>fp.
        or_raise (json_load h fp) (\<lambda>input_data.
        or_raise (new_template h template_text) (\<lambda>template.
        let filters = (Map.empty(''tif'' \<mapsto> Tif_filter))(''mapattr'' \<mapsto> Map_filter) in
        or_raise (render_template h template filters input_data) (\<lambda>rendered.
        print rendered #
        print ''; This PDDL problem file was generated using Jinja2 template'' #
        or_raise (sanitize_line_ends (any_object_as_bool h) (sys_version h)) (\<lambda>version.
        [print ('';    Python: '' @ version),
         print ('';    Data: '' @ data_path),
         print ('';    Time: '' @ now_text h)]))))))"

text \<open>
  The module: the import guarded by \<^verbatim>\<open>except ImportError\<close>, the read of the template, the
  call \<^verbatim>\<open>main(sys.argv[1:])\<close>.
  \<^verbatim>\<open>
  try:
      from jinja2 import Template
  except ImportError:
      eprint("Jinja2 is not installed. Run this command in the terminal: python -m pip install jinja2")
      exit(-1)
  template_text = "".join(sys.stdin.readlines())
  \<close>
\<close>

definition script :: "'t host \<Rightarrow> event list" where
  "script h =
     (if \<not> jinja2_found h then
        eprint ''Jinja2 is not installed. Run this command in the terminal: python -m pip install jinja2''
        @ [Exit (- 1)]
      else
        let template_text = str_join [] (readlines (stdin_text h)) in
        Read_stdin template_text # main h template_text (argv_rest h))"

subsection \<open>\<^verbatim>\<open>client/scripts/transform_jinja2.py\<close>\<close>

text \<open>
  \<^verbatim>\<open>
  def main(args):
      if len(args) < 1:
          eprint("Usage: {0} <data.json>".format(os.path.basename(sys.argv[0])))
          exit(-1)
      data_path = args[0]
      with io.open(data_path, mode='r', encoding="utf-8") as fp:
          input_data = json.load(fp)
      template = Template(template_text)
      rendered = template.render(data=input_data)
      print(rendered)
      print("; This PDDL problem file was generated using Jinja2 template")
      print(";    Python: " + sys.version)
      print(";    Data: " + data_path)
      print(";    Time: " + str(datetime.datetime.now()))
  \<close>
\<close>

definition client_main :: "'t host \<Rightarrow> string \<Rightarrow> string list \<Rightarrow> event list" where
  "client_main h template_text args =
     (if length args < 1 then
        or_raise (py_format ''Usage: {0} <data.json>'' [basename (argv0 h)]) (\<lambda>usage.
          eprint usage @ [Exit (- 1)])
      else
        let data_path = args ! 0 in
        Read_file data_path #
        or_raise (file_text h data_path) (\<lambda>fp.
        or_raise (json_load h fp) (\<lambda>input_data.
        or_raise (new_template h template_text) (\<lambda>template.
        or_raise (render_template h template Map.empty input_data) (\<lambda>rendered.
        [print rendered,
         print ''; This PDDL problem file was generated using Jinja2 template'',
         print ('';    Python: '' @ sys_version h),
         print ('';    Data: '' @ data_path),
         print ('';    Time: '' @ now_text h)])))))"

definition client_script :: "'t host \<Rightarrow> event list" where
  "client_script h =
     (if \<not> jinja2_found h then
        eprint ''Jinja2 is not installed. Run this command in the terminal: python -m pip install jinja2''
        @ [Exit (- 1)]
      else
        let template_text = str_join [] (readlines (stdin_text h)) in
        Read_stdin template_text # client_main h template_text (argv_rest h))"

subsection \<open>The driver as the specification describes it\<close>

text \<open>
  The specification describes one driver and calls the second script a variant of it that
  differs in two places: which filters are in the registry, and whether the runtime
  identifier passes through a sanitizer before it is printed. \<open>driver\<close> follows that
  description, with the registry and the sanitizer as parameters: when the engine is
  missing, a remediation message and a non-zero exit before any input is read; otherwise
  the whole standard input is the template; with no argument a usage line and a non-zero
  exit; otherwise the data file is read and parsed, the template constructed, the registry
  installed and the template rendered; the rendered text is written, then the banner and
  the three labelled lines of the trailer.
\<close>

definition driver ::
  "(string \<rightharpoonup> pyfunction) \<Rightarrow> (string \<Rightarrow> error + string) \<Rightarrow> 't host \<Rightarrow> event list" where
  "driver registry sanitizer h =
     (if jinja2_found h then
        Read_stdin (stdin_text h) #
        (case argv_rest h of
           [] \<Rightarrow>
             [Write_stderr (''Usage: '' @ basename (argv0 h) @ '' <data.json>''), Exit (- 1)]
         | data_path # others \<Rightarrow>
             Read_file data_path #
             or_raise (file_text h data_path) (\<lambda>text.
             or_raise (json_load h text) (\<lambda>data.
             or_raise (new_template h (stdin_text h)) (\<lambda>template.
             or_raise (render_template h template registry data) (\<lambda>rendered.
             Write_stdout (rendered @ [LF]) #
             Write_stdout
               (''; This PDDL problem file was generated using Jinja2 template'' @ [LF]) #
             or_raise (sanitizer (sys_version h)) (\<lambda>identifier.
             [Write_stdout ('';    Python: '' @ identifier @ [LF]),
              Write_stdout ('';    Data: '' @ data_path @ [LF]),
              Write_stdout ('';    Time: '' @ now_text h @ [LF])]))))))
      else
        [Write_stderr
           ''Jinja2 is not installed. Run this command in the terminal: python -m pip install jinja2'',
         Exit (- 1)])"

subsection \<open>A concrete host\<close>

text \<open>
  A host on which runs can be evaluated: the template \<^verbatim>\<open>(problem p1)\<close> on the standard
  input, one file \<^verbatim>\<open>data.json\<close> holding \<^verbatim>\<open>{}\<close>, and an engine that renders a template
  without directives to itself.
\<close>

definition example_host :: "string host" where
  "example_host =
     \<lparr> jinja2_found = True,
       any_object_as_bool = True,
       stdin_text = ''(problem p1)'',
       argv0 = ''scripts/transform_jinja2.py'',
       argv_rest = [''data.json''],
       file_text = (\<lambda>path. if path = ''data.json'' then Inr ''{}'' else Inl OSError),
       json_load = (\<lambda>text. if text = ''{}'' then Inr (PDict []) else Inl JSONDecodeError),
       new_template = Inr,
       render_template = (\<lambda>template filters data. Inr template),
       sys_version = ''3.12.3 (main, Apr 10 2024, 05:33:47) [GCC 13.2.0]'',
       now_text = ''2024-11-06 10:00:00.000001'' \<rparr>"

section \<open>Properties of the library calls\<close>





lemma format_usage:
  "py_format ''Usage: {0} <data.json>'' [name] = Inr (''Usage: '' @ name @ '' <data.json>'')"
  by (simp add: py_format_def prepend_def and_then_def is_digit_def nat_of_digits_def
      digit_value_def)

text \<open>Joining what \<^verbatim>\<open>readlines\<close> returns on the empty string gives the input back.\<close>

lemma readlines_from_concat: "concat (readlines_from line s) = line @ s"
  by (induction s arbitrary: line) simp_all

lemma str_join_empty: "str_join [] xs = concat xs"
  by (induction xs rule: induct_list012) simp_all

lemma read_whole_stdin: "str_join [] (readlines s) = s"
  by (simp add: str_join_empty readlines_def readlines_from_concat)

text \<open>With \<open>keepends\<close> the lines of \<^verbatim>\<open>splitlines\<close> are a partition of the string.\<close>

lemma splitlines_from_keep: "concat (splitlines_from line True s) = line @ s"
  by (induction line True s rule: splitlines_from.induct) simp_all

lemma filter_linebreak_join:
  "filter is_linebreak (str_join '', '' xs) = filter is_linebreak (concat xs)"
  by (induction xs rule: induct_list012) (simp_all add: is_linebreak_def)

section \<open>The \<^verbatim>\<open>tif\<close> filter\<close>



section \<open>The \<^verbatim>\<open>mapattr\<close> filter\<close>

text \<open>
  The filter asks \<^verbatim>\<open>hasattr\<close> and then subscripts. When \<^verbatim>\<open>hasattr\<close> fails the default is
  returned, and \<^verbatim>\<open>None\<close> when no default was passed.
\<close>

lemma map_filter_no_attr:
  "\<not> py_hasattr v k \<Longrightarrow> map_filter v k (Some d) = Inr d \<and> map_filter v k None = Inr PNone"
  by (simp add: map_filter_def)

text \<open>A key of a \<^verbatim>\<open>dict\<close> that is not the name of a \<^verbatim>\<open>dict\<close> attribute is never looked up.\<close>

lemma map_filter_dict_plain_key:
  "k \<notin> set (object_attrs @ dict_attrs) \<Longrightarrow> map_filter (PDict items) k (Some d) = Inr d"
  by (simp add: map_filter_def py_hasattr_def)

text \<open>
  C1. The claim is that \<^verbatim>\<open>mapattr(M, k, d)\<close> is \<^verbatim>\<open>M[k]\<close> for a mapping \<open>M\<close> with key
  \<open>k\<close>. On the mapping \<^verbatim>\<open>{"x": 42}\<close> with key \<^verbatim>\<open>"x"\<close> and default \<^verbatim>\<open>0\<close> the function
  returns the default \<^verbatim>\<open>0\<close>, not the entry \<^verbatim>\<open>42\<close>: \<^verbatim>\<open>"x"\<close> is a key, not an attribute.
\<close>

theorem mapattr_present_returns_default:
  "map_filter (PDict [(''x'', PNum (NInt 42))]) ''x'' (Some (PNum (NInt 0))) =
     Inr (PNum (NInt 0))"
  by (simp add: map_filter_def py_hasattr_def object_attrs_def dict_attrs_def)

text \<open>
  C5. The claim is that \<^verbatim>\<open>mapattr(V, k, d)\<close> is \<open>d\<close> for a value \<open>V\<close> without key \<open>k\<close>.
  On the mapping \<^verbatim>\<open>{"y": 1}\<close>, which has no key \<^verbatim>\<open>"keys"\<close>, with default \<^verbatim>\<open>0\<close> the function
  raises \<^verbatim>\<open>KeyError\<close>: \<^verbatim>\<open>keys\<close> is a method of \<^verbatim>\<open>dict\<close>, so \<^verbatim>\<open>hasattr\<close> holds and the
  subscription fails.
\<close>

theorem mapattr_absent_raises:
  "map_filter (PDict [(''y'', PNum (NInt 1))]) ''keys'' (Some (PNum (NInt 0))) = Inl KeyError"
  by (simp add: map_filter_def py_hasattr_def object_attrs_def dict_attrs_def)

section \<open>The helper \<^verbatim>\<open>sanitize_line_ends\<close>\<close>

text \<open>
  An interpreter that wants a \<^verbatim>\<open>bool\<close> or an \<^verbatim>\<open>int\<close> for \<^verbatim>\<open>keepends\<close> rejects every call of
  the helper; one that takes the truth value of the string keeps every line boundary of
  the input in the result.
\<close>

lemma sanitize_int_only: "sanitize_line_ends False s = Inl TypeError"
  by (simp add: sanitize_line_ends_def bool_param_def and_then_def)

lemma sanitize_keeps_every_line_end:
  "sanitize_line_ends True s = Inr r \<Longrightarrow> filter is_linebreak r = filter is_linebreak s"
  by (cases "s = []")
    (auto simp: sanitize_line_ends_def bool_param_def and_then_def splitlines_def
      filter_linebreak_join splitlines_from_keep)

text \<open>
  C2. The claim is that the result is the input with every line terminator replaced by
  \<^verbatim>\<open>", "\<close>. On the two-line version string of CPython 3.8 the helper either returns the
  string with the line feed still in it and \<^verbatim>\<open>", "\<close> inserted after it, or raises
  \<^verbatim>\<open>TypeError\<close>, depending on how the interpreter converts the argument of \<^verbatim>\<open>splitlines\<close>.
\<close>

theorem sanitize_keeps_line_end:
  "sanitize_line_ends True ''3.8.10 (default, Nov 22 2023, 10:22:35) \<newline>[GCC 9.4.0]'' =
     Inr ''3.8.10 (default, Nov 22 2023, 10:22:35) \<newline>, [GCC 9.4.0]''
   \<and> sanitize_line_ends False ''3.8.10 (default, Nov 22 2023, 10:22:35) \<newline>[GCC 9.4.0]'' =
     Inl TypeError"
  by (simp add: sanitize_line_ends_def bool_param_def and_then_def splitlines_def
      is_linebreak_def LF_def CR_def)

section \<open>Runs of the scripts\<close>


text \<open>
  C6. When Jinja2 cannot be imported, the run consists of one write to the standard error,
  the remediation message, which has no line break in it, and \<^verbatim>\<open>exit(-1)\<close>: nothing is
  read from the standard input or from a file, nothing is written to the standard output,
  and the exit status is not zero.
\<close>

theorem engine_missing:
  assumes "\<not> jinja2_found h"
  shows "script h =
           [Write_stderr
              ''Jinja2 is not installed. Run this command in the terminal: python -m pip install jinja2'',
            Exit (- 1)]
         \<and> filter is_input (script h) = []
         \<and> stdout_of (script h) = []
         \<and> exit_status (script h) \<noteq> 0
         \<and> \<not> list_ex is_linebreak
              ''Jinja2 is not installed. Run this command in the terminal: python -m pip install jinja2''"
  using assms by (simp add: script_def eprint_def is_linebreak_def)

theorem engine_missing_witness:
  "\<not> jinja2_found (example_host\<lparr>jinja2_found := False\<rparr>)
   \<and> script (example_host\<lparr>jinja2_found := False\<rparr>) =
       [Write_stderr
          ''Jinja2 is not installed. Run this command in the terminal: python -m pip install jinja2'',
        Exit (- 1)]"
  using engine_missing [of "example_host\<lparr>jinja2_found := False\<rparr>"] by simp







text \<open>
  What a run prints when every step succeeds, \<open>sanitize_line_ends\<close> included: the rendered
  text, the banner and the three labelled lines, with whatever the helper returned after
  \<^verbatim>\<open>Python:\<close>.
\<close>

lemma successful_run_output:
  assumes "jinja2_found h" and "argv_rest h = data_path # others"
    and "file_text h data_path = Inr text" and "json_load h text = Inr data"
    and "new_template h (stdin_text h) = Inr template"
    and "render_template h template
           (Map.empty(''tif'' \<mapsto> Tif_filter, ''mapattr'' \<mapsto> Map_filter)) data = Inr rendered"
    and "sanitize_line_ends (any_object_as_bool h) (sys_version h) = Inr version"
  shows "stdout_of (script h) =
           rendered @ [LF]
           @ ''; This PDDL problem file was generated using Jinja2 template'' @ [LF]
           @ '';    Python: '' @ version @ [LF]
           @ '';    Data: '' @ data_path @ [LF]
           @ '';    Time: '' @ now_text h @ [LF]"
    and "exit_status (script h) = 0"
  using assms
  by (simp_all add: script_def main_def read_whole_stdin or_raise_def print_def)

text \<open>
  C4. The claim is that after a successful render the standard output is the rendered
  template and four trailer lines, each starting with \<^verbatim>\<open>;\<close>. On a host whose version string
  has two lines, and with a render that succeeds, an interpreter that rejects a string for
  \<^verbatim>\<open>keepends\<close> ends the run with \<^verbatim>\<open>TypeError\<close> after the first trailer line, and one that
  accepts it prints a line \<^verbatim>\<open>, [GCC 9.4.0]\<close> between the second trailer line and the third.
\<close>

theorem trailer_broken:
  "script (example_host\<lparr>any_object_as_bool := False,
      sys_version := ''3.8.10 (default, Nov 22 2023, 10:22:35) \<newline>[GCC 9.4.0]''\<rparr>) =
     [Read_stdin ''(problem p1)'', Read_file ''data.json'',
      Write_stdout ''(problem p1)\<newline>'',
      Write_stdout ''; This PDDL problem file was generated using Jinja2 template\<newline>'',
      Uncaught TypeError]
   \<and> stdout_of (script (example_host\<lparr>any_object_as_bool := True,
      sys_version := ''3.8.10 (default, Nov 22 2023, 10:22:35) \<newline>[GCC 9.4.0]''\<rparr>)) =
     ''(problem p1)\<newline>; This PDDL problem file was generated using Jinja2 template\<newline>;    Python: 3.8.10 (default, Nov 22 2023, 10:22:35) \<newline>, [GCC 9.4.0]\<newline>;    Data: data.json\<newline>;    Time: 2024-11-06 10:00:00.000001\<newline>''"
  by (simp add: script_def main_def example_host_def read_whole_stdin or_raise_def print_def
      sanitize_line_ends_def bool_param_def and_then_def splitlines_def
      is_linebreak_def LF_def CR_def)

section \<open>The second script as a variant of the first\<close>

lemma client_script_driver: "client_script h = driver Map.empty Inr h"
  by (cases "argv_rest h")
    (simp_all add: client_script_def client_main_def driver_def read_whole_stdin format_usage
      or_raise_def eprint_def print_def split: sum.splits)

lemma script_driver:
  "script h =
     driver (Map.empty(''tif'' \<mapsto> Tif_filter, ''mapattr'' \<mapsto> Map_filter))
       (sanitize_line_ends (any_object_as_bool h)) h"
  by (cases "argv_rest h")
    (simp_all add: script_def main_def driver_def read_whole_stdin format_usage
      or_raise_def eprint_def print_def split: sum.splits)

text \<open>
  Until the template is rendered the driver uses neither of its two parameters, so the two
  scripts run alike whenever the run ends before that.
\<close>

lemma driver_before_render:
  assumes "\<not> jinja2_found h \<or> argv_rest h = []
           \<or> (\<exists>e. file_text h (hd (argv_rest h)) = Inl e)
           \<or> (\<exists>text e. file_text h (hd (argv_rest h)) = Inr text \<and> json_load h text = Inl e)
           \<or> (\<exists>e. new_template h (stdin_text h) = Inl e)"
  shows "driver registry sanitizer h = driver registry' sanitizer' h"
  using assms by (cases "argv_rest h") (auto simp: driver_def or_raise_def split: sum.splits)

lemma scripts_agree_before_render:
  assumes "\<not> jinja2_found h \<or> argv_rest h = []
           \<or> (\<exists>e. file_text h (hd (argv_rest h)) = Inl e)
           \<or> (\<exists>text e. file_text h (hd (argv_rest h)) = Inr text \<and> json_load h text = Inl e)
           \<or> (\<exists>e. new_template h (stdin_text h) = Inl e)"
  shows "client_script h = script h"
  unfolding client_script_driver script_driver using assms by (rule driver_before_render)


end
